theory Spec2Isabelle
  imports
    Complex_Main
    "HOL-Library.Char_ord"
    "HOL-Library.List_Lexorder"
    "HOL-Library.Multiset"
begin

section \<open>Style profiler: the data model\<close>

text \<open>
  A shallow embedding of \<^verbatim>\<open>services/style_profiler.py\<close> (class \<^verbatim>\<open>StyleProfiler\<close>).
  Python dictionaries keep insertion order and the code iterates over them, so a
  dictionary is an association list with distinct keys in insertion order. Attribute
  values are strings. Floats are idealised as reals; the value \<^verbatim>\<open>nan\<close> that
  \<^verbatim>\<open>mean\<close> yields on an empty array is \<open>None\<close>. Strings are byte strings, and
  \<^verbatim>\<open>lower\<close>, \<^verbatim>\<open>title\<close> act on the ASCII letters.

  A record is a dictionary. Its three mappings \<^verbatim>\<open>attributes\<close>, \<^verbatim>\<open>colors\<close> and \<^verbatim>\<open>style\<close>
  can each be a missing key (\<open>Absent\<close>), a key whose value is \<^verbatim>\<open>None\<close> (\<open>PyNone\<close>: what
  \<^verbatim>\<open>record.dict()\<close> of \<^verbatim>\<open>main_minimal.py\<close> gives for an optional field that was left
  out), or a key whose value is a dictionary.
\<close>

type_synonym pydict = "(string \<times> string) list"

datatype pyfield = Absent | PyNone | Mapping pydict

record vlt_record =
  rec_id :: "string option"
  imageId :: "string option"
  garment_type :: "string option"
  attributes :: pyfield
  colors :: pyfield
  style :: pyfield

type_synonym matrix = "real list list"

type_synonym dominant = "(string \<times> (string \<times> nat)) list"

record cluster =
  cluster_id :: nat
  cluster_size :: nat
  percentage :: real
  dominant_attributes :: dominant
  centroid_confidence :: "real option"
  representative_records :: "string list"
  style_summary :: string

record stats =
  garment_distribution :: "(string \<times> nat) list"
  color_distribution :: "(string \<times> nat) list"
  style_distribution :: "(string \<times> nat) list"
  diversity_score :: real
  largest_cluster_percentage :: real

record profile =
  user_id :: string
  n_records :: nat
  n_clusters :: int
  clusters :: "cluster list"
  statistics :: stats
  feature_importance :: "(string \<times> real) list"
  created_at :: string
  updated_at :: string

text \<open>
  The exceptions a call can end with. \<open>ProfileNotFound\<close> is the \<^verbatim>\<open>ValueError\<close> that
  \<^verbatim>\<open>update_profile\<close> raises itself; \<open>ModelLoadFailure\<close> is \<^verbatim>\<open>joblib.load\<close> on a
  missing models file; \<open>ScalerFailure\<close>, \<open>PCAFailure\<close>, \<open>MixtureFailure\<close> and
  \<open>ForestFailure\<close> are exceptions of the numeric library; \<open>IndexError\<close> and
  \<open>EmptyLabels\<close> are raised by the array operations of the profiler's own code;
  \<open>TypeError\<close> and \<open>AttributeError\<close> are raised by \<^verbatim>\<open>key in d\<close> and by \<^verbatim>\<open>d.get\<close>,
  \<^verbatim>\<open>d.items\<close> when \<open>d\<close> is \<^verbatim>\<open>None\<close>.
  \<open>InsufficientData\<close> is the validation error of the specification's taxonomy: no
  statement of the source raises it.
\<close>

datatype error =
    InsufficientData
  | ProfileNotFound
  | ModelLoadFailure
  | ScalerFailure
  | PCAFailure
  | MixtureFailure
  | ForestFailure
  | IndexError
  | EmptyLabels
  | TypeError
  | AttributeError

section \<open>Python strings and dictionaries\<close>

definition lower_char :: "char \<Rightarrow> char" where
  "lower_char c =
     (case map_of (zip ''ABCDEFGHIJKLMNOPQRSTUVWXYZ'' ''abcdefghijklmnopqrstuvwxyz'') c of
        Some d \<Rightarrow> d | None \<Rightarrow> c)"

definition upper_char :: "char \<Rightarrow> char" where
  "upper_char c =
     (case map_of (zip ''abcdefghijklmnopqrstuvwxyz'' ''ABCDEFGHIJKLMNOPQRSTUVWXYZ'') c of
        Some d \<Rightarrow> d | None \<Rightarrow> c)"

definition is_cased :: "char \<Rightarrow> bool" where
  "is_cased c \<longleftrightarrow> c \<in> set ''ABCDEFGHIJKLMNOPQRSTUVWXYZabcdefghijklmnopqrstuvwxyz''"

definition lower :: "string \<Rightarrow> string" where
  "lower s = map lower_char s"

text \<open>\<^verbatim>\<open>str.title\<close>: a letter after a letter is lowered, any other letter is raised.\<close>

fun title_from :: "bool \<Rightarrow> string \<Rightarrow> string" where
  "title_from prev [] = []"
| "title_from prev (c # cs) =
     (if prev then lower_char c else upper_char c) # title_from (is_cased c) cs"

definition title :: "string \<Rightarrow> string" where
  "title s = title_from False s"

fun starts_with :: "string \<Rightarrow> string \<Rightarrow> bool" where
  "starts_with [] s = True"
| "starts_with (p # ps) [] = False"
| "starts_with (p # ps) (c # cs) = (p = c \<and> starts_with ps cs)"

text \<open>\<^verbatim>\<open>needle in hay\<close> on strings: \<open>needle\<close> occurs as a contiguous substring.\<close>

fun contains :: "string \<Rightarrow> string \<Rightarrow> bool" where
  "contains needle [] = (needle = [])"
| "contains needle (c # cs) = (starts_with needle (c # cs) \<or> contains needle cs)"

text \<open>\<^verbatim>\<open>" ".join(parts)\<close>.\<close>

fun join_space :: "string list \<Rightarrow> string" where
  "join_space [] = []"
| "join_space [p] = p"
| "join_space (p # q # ps) = p @ '' '' @ join_space (q # ps)"

text \<open>\<^verbatim>\<open>d[k] = f(d[k])\<close> when \<open>k\<close> is a key, \<^verbatim>\<open>d[k] = f(default)\<close> (appended) otherwise.\<close>

fun dict_upd :: "'k \<Rightarrow> ('v \<Rightarrow> 'v) \<Rightarrow> 'v \<Rightarrow> ('k \<times> 'v) list \<Rightarrow> ('k \<times> 'v) list" where
  "dict_upd k f d [] = [(k, f d)]"
| "dict_upd k f d ((k', v) # kvs) =
     (if k' = k then (k', f v) # kvs else (k', v) # dict_upd k f d kvs)"

text \<open>
  \<^verbatim>\<open>record.get(field, {})\<close>: the default for a missing key, and the value, which can
  be \<^verbatim>\<open>None\<close>, for a key that is there.
\<close>

definition get_dict :: "pyfield \<Rightarrow> pydict option" where
  "get_dict f = (case f of Absent \<Rightarrow> Some [] | PyNone \<Rightarrow> None | Mapping kvs \<Rightarrow> Some kvs)"

text \<open>\<^verbatim>\<open>d.get(k)\<close>, which raises AttributeError when \<open>d\<close> is \<^verbatim>\<open>None\<close>.\<close>

definition dict_get :: "pydict option \<Rightarrow> string \<Rightarrow> error + string option" where
  "dict_get d k = (case d of None \<Rightarrow> Inl AttributeError | Some kvs \<Rightarrow> Inr (map_of kvs k))"

text \<open>\<^verbatim>\<open>d.items()\<close>, which raises AttributeError when \<open>d\<close> is \<^verbatim>\<open>None\<close>.\<close>

definition dict_items :: "pydict option \<Rightarrow> error + pydict" where
  "dict_items d = (case d of None \<Rightarrow> Inl AttributeError | Some kvs \<Rightarrow> Inr kvs)"

text \<open>
  \<^verbatim>\<open>d[k] if k in d\<close>, as an optional value; \<^verbatim>\<open>k in d\<close> raises TypeError when \<open>d\<close> is
  \<^verbatim>\<open>None\<close>.
\<close>

definition dict_find :: "pydict option \<Rightarrow> string \<Rightarrow> error + string option" where
  "dict_find d k = (case d of None \<Rightarrow> Inl TypeError | Some kvs \<Rightarrow> Inr (map_of kvs k))"

text \<open>A loop whose body may raise: the first exception ends it.\<close>

fun fold_err :: "('b \<Rightarrow> 'a \<Rightarrow> error + 'b) \<Rightarrow> 'b \<Rightarrow> 'a list \<Rightarrow> error + 'b" where
  "fold_err f acc [] = Inr acc"
| "fold_err f acc (x # xs) =
     (case f acc x of Inl e \<Rightarrow> Inl e | Inr acc' \<Rightarrow> fold_err f acc' xs)"

fun map_err :: "('a \<Rightarrow> error + 'b) \<Rightarrow> 'a list \<Rightarrow> error + 'b list" where
  "map_err f [] = Inr []"
| "map_err f (x # xs) =
     (case f x of
        Inl e \<Rightarrow> Inl e
      | Inr y \<Rightarrow> (case map_err f xs of Inl e \<Rightarrow> Inl e | Inr ys \<Rightarrow> Inr (y # ys)))"

section \<open>Dominant attributes and the style name\<close>

text \<open>\<^verbatim>\<open>attr_counts[key][value] += 1\<close> on the nested default dictionaries.\<close>

definition count_value ::
  "string \<Rightarrow> string \<Rightarrow> (string \<times> (string \<times> nat) list) list \<Rightarrow> (string \<times> (string \<times> nat) list) list" where
  "count_value key val counts = dict_upd key (dict_upd val Suc 0) [] counts"

text \<open>
  The body of the loop of \<^verbatim>\<open>_find_dominant_attributes\<close> for one record:
  \<^verbatim>\<open>attrs.items()\<close>, then \<^verbatim>\<open>'primary' in colors\<close>, then \<^verbatim>\<open>style.items()\<close>.
\<close>

definition count_record ::
  "(string \<times> (string \<times> nat) list) list \<Rightarrow> vlt_record \<Rightarrow>
     error + (string \<times> (string \<times> nat) list) list" where
  "count_record counts r =
     (case dict_items (get_dict (attributes r)) of
        Inl e \<Rightarrow> Inl e
      | Inr attrs \<Rightarrow>
          (let c1 = foldl (\<lambda>c (key, val). count_value key val c) counts attrs
           in case dict_find (get_dict (colors r)) ''primary'' of
                Inl e \<Rightarrow> Inl e
              | Inr primary \<Rightarrow>
                  (let c2 = (case primary of None \<Rightarrow> c1 | Some p \<Rightarrow> count_value ''color'' p c1)
                   in case dict_items (get_dict (style r)) of
                        Inl e \<Rightarrow> Inl e
                      | Inr sty \<Rightarrow>
                          Inr (foldl (\<lambda>c (key, val). count_value (''style_'' @ key) val c) c2 sty))))"

text \<open>\<^verbatim>\<open>max(values.items(), key=lambda x: x[1])\<close>: the first entry of greatest count.\<close>

fun max_count :: "(string \<times> nat) \<Rightarrow> (string \<times> nat) list \<Rightarrow> (string \<times> nat)" where
  "max_count best [] = best"
| "max_count best (x # xs) = max_count (if snd best < snd x then x else best) xs"

text \<open>
  \<^verbatim>\<open>_find_dominant_attributes\<close>. An inner dictionary is created by an increment, so it
  is never empty and \<^verbatim>\<open>max\<close> never raises.
\<close>

definition find_dominant_attributes :: "vlt_record list \<Rightarrow> error + dominant" where
  "find_dominant_attributes records =
     (case fold_err count_record [] records of
        Inl e \<Rightarrow> Inl e
      | Inr attr_counts \<Rightarrow>
          Inr (concat (map (\<lambda>(attr_name, vals).
                              case vals of [] \<Rightarrow> [] | v # vs \<Rightarrow> [(attr_name, max_count v vs)])
                           attr_counts)))"

text \<open>\<^verbatim>\<open>dominant_attrs.get(k, ['unknown', 0])[0].lower() if k in dominant_attrs else 'unknown'\<close>.\<close>

definition dominant_value :: "dominant \<Rightarrow> string \<Rightarrow> string" where
  "dominant_value dominant_attrs k =
     (case map_of dominant_attrs k of None \<Rightarrow> ''unknown'' | Some (v, n) \<Rightarrow> lower v)"

definition is_minimalist_tailoring :: "string \<Rightarrow> string \<Rightarrow> string \<Rightarrow> string \<Rightarrow> string \<Rightarrow> string \<Rightarrow> bool" where
  "is_minimalist_tailoring overall_style aesthetic silhouette color fabrication formality \<longleftrightarrow>
     contains ''minimalist'' aesthetic \<or> contains ''clean'' aesthetic \<or>
     contains ''structured'' silhouette \<or> contains ''tailored'' silhouette \<or>
     contains ''professional'' overall_style \<or> contains ''formal'' formality \<or>
     contains ''wool'' fabrication \<or> contains ''suiting'' fabrication"

definition is_fluid_evening :: "string \<Rightarrow> string \<Rightarrow> string \<Rightarrow> string \<Rightarrow> string \<Rightarrow> string \<Rightarrow> bool" where
  "is_fluid_evening overall_style aesthetic silhouette color fabrication formality \<longleftrightarrow>
     contains ''elegant'' aesthetic \<or> contains ''sophisticated'' aesthetic \<or>
     contains ''fluid'' silhouette \<or> contains ''flowing'' silhouette \<or>
     contains ''a-line'' silhouette \<or>
     contains ''evening'' overall_style \<or> contains ''formal'' overall_style \<or>
     contains ''silk'' fabrication \<or> contains ''charmeuse'' fabrication \<or>
     contains ''glossy'' color"

definition is_experimental_edge :: "string \<Rightarrow> string \<Rightarrow> string \<Rightarrow> string \<Rightarrow> string \<Rightarrow> string \<Rightarrow> bool" where
  "is_experimental_edge overall_style aesthetic silhouette color fabrication formality \<longleftrightarrow>
     contains ''experimental'' aesthetic \<or> contains ''avant'' aesthetic \<or>
     contains ''edgy'' aesthetic \<or>
     contains ''deconstructed'' silhouette \<or> contains ''asymmetric'' silhouette \<or>
     contains ''technical'' fabrication \<or> contains ''innovative'' fabrication \<or>
     contains ''unconventional'' overall_style"

definition is_sporty_chic :: "string \<Rightarrow> string \<Rightarrow> string \<Rightarrow> string \<Rightarrow> string \<Rightarrow> string \<Rightarrow> bool" where
  "is_sporty_chic overall_style aesthetic silhouette color fabrication formality \<longleftrightarrow>
     contains ''sporty'' aesthetic \<or> contains ''athletic'' aesthetic \<or>
     contains ''casual'' aesthetic \<or>
     contains ''relaxed'' silhouette \<or> contains ''loose'' silhouette \<or>
     contains ''sporty'' overall_style \<or> contains ''casual'' overall_style \<or>
     contains ''jersey'' fabrication \<or> contains ''knit'' fabrication"

definition is_romantic_bohemian :: "string \<Rightarrow> string \<Rightarrow> string \<Rightarrow> string \<Rightarrow> string \<Rightarrow> string \<Rightarrow> bool" where
  "is_romantic_bohemian overall_style aesthetic silhouette color fabrication formality \<longleftrightarrow>
     contains ''romantic'' aesthetic \<or> contains ''bohemian'' aesthetic \<or>
     contains ''feminine'' aesthetic \<or>
     contains ''flowing'' silhouette \<or> contains ''draped'' silhouette \<or>
     contains ''boho'' overall_style \<or> contains ''artistic'' overall_style \<or>
     contains ''chiffon'' fabrication \<or> contains ''lace'' fabrication"

definition is_urban_contemporary :: "string \<Rightarrow> string \<Rightarrow> string \<Rightarrow> string \<Rightarrow> string \<Rightarrow> string \<Rightarrow> bool" where
  "is_urban_contemporary overall_style aesthetic silhouette color fabrication formality \<longleftrightarrow>
     contains ''contemporary'' aesthetic \<or> contains ''modern'' aesthetic \<or>
     contains ''urban'' aesthetic \<or>
     contains ''versatile'' overall_style \<or> contains ''smart-casual'' overall_style \<or>
     contains ''cotton'' fabrication \<or> contains ''denim'' fabrication"

definition is_classic_refined :: "string \<Rightarrow> string \<Rightarrow> string \<Rightarrow> string \<Rightarrow> string \<Rightarrow> string \<Rightarrow> bool" where
  "is_classic_refined overall_style aesthetic silhouette color fabrication formality \<longleftrightarrow>
     contains ''classic'' aesthetic \<or> contains ''refined'' aesthetic \<or>
     contains ''traditional'' aesthetic \<or>
     contains ''fitted'' silhouette \<or> contains ''traditional'' silhouette \<or>
     contains ''business'' overall_style \<or> contains ''polished'' overall_style"

text \<open>The list \<^verbatim>\<open>style_parts\<close> that the fallback branch builds.\<close>

definition style_parts :: "string \<Rightarrow> string \<Rightarrow> string \<Rightarrow> string \<Rightarrow> string list" where
  "style_parts overall_style aesthetic silhouette fabrication =
     [if aesthetic \<noteq> ''unknown'' then title aesthetic
      else if overall_style \<noteq> ''unknown'' then title overall_style
      else ''Contemporary'',
      if silhouette \<noteq> ''unknown'' \<and> silhouette \<in> set [''tailored'', ''structured''] then ''Tailoring''
      else if silhouette \<noteq> ''unknown'' \<and> silhouette \<in> set [''fluid'', ''flowing'', ''draped''] then ''Flow''
      else if fabrication \<noteq> ''unknown'' then title fabrication
      else ''Mix'']"

text \<open>
  The last statement of the fallback branch:
  \<^verbatim>\<open>" ".join(style_parts[:2]) if len(style_parts) >= 2 else (style_parts[0] if style_parts else "Mixed Style")\<close>.
\<close>

definition compose_name :: "string list \<Rightarrow> string" where
  "compose_name parts =
     (if 2 \<le> length parts then join_space (take 2 parts)
      else (case parts of p # ps \<Rightarrow> p | [] \<Rightarrow> ''Mixed Style''))"

definition summarize_cluster_style :: "dominant \<Rightarrow> string" where
  "summarize_cluster_style dominant_attrs =
     (let overall_style = dominant_value dominant_attrs ''style_overall'';
          aesthetic = dominant_value dominant_attrs ''style_aesthetic'';
          silhouette = dominant_value dominant_attrs ''silhouette'';
          color = dominant_value dominant_attrs ''color'';
          fabrication = dominant_value dominant_attrs ''fabrication'';
          formality = dominant_value dominant_attrs ''style_formality''
      in if is_minimalist_tailoring overall_style aesthetic silhouette color fabrication formality
           then ''Minimalist Tailoring''
         else if is_fluid_evening overall_style aesthetic silhouette color fabrication formality
           then ''Fluid Evening''
         else if is_experimental_edge overall_style aesthetic silhouette color fabrication formality
           then ''Experimental Edge''
         else if is_sporty_chic overall_style aesthetic silhouette color fabrication formality
           then ''Sporty Chic''
         else if is_romantic_bohemian overall_style aesthetic silhouette color fabrication formality
           then ''Romantic Bohemian''
         else if is_urban_contemporary overall_style aesthetic silhouette color fabrication formality
           then ''Urban Contemporary''
         else if is_classic_refined overall_style aesthetic silhouette color fabrication formality
           then ''Classic Refined''
         else compose_name (style_parts overall_style aesthetic silhouette fabrication))"

section \<open>Feature extraction\<close>

definition attr_keys :: "string list" where
  "attr_keys = [''silhouette'', ''neckline'', ''sleeveLength'', ''length'', ''waistline'', ''fabrication'']"

definition style_keys :: "string list" where
  "style_keys = [''overall'', ''formality'', ''aesthetic'', ''mood'']"

text \<open>\<^verbatim>\<open>categorical_values[key].add(value)\<close> on a default dictionary of sets.\<close>

definition add_value :: "string \<Rightarrow> string \<Rightarrow> (string \<times> string list) list \<Rightarrow> (string \<times> string list) list" where
  "add_value key val cv = dict_upd key (List.insert val) [] cv"

text \<open>\<^verbatim>\<open>if field in d: categorical_values[key].add(d[field])\<close>.\<close>

definition add_present ::
  "pydict option \<Rightarrow> string \<Rightarrow> string \<Rightarrow> (string \<times> string list) list \<Rightarrow>
     error + (string \<times> string list) list" where
  "add_present d field key cv =
     (case dict_find d field of
        Inl e \<Rightarrow> Inl e
      | Inr None \<Rightarrow> Inr cv
      | Inr (Some v) \<Rightarrow> Inr (add_value key v cv))"

text \<open>The body of the first loop of \<^verbatim>\<open>_extract_features\<close>, for one record.\<close>

definition collect_values ::
  "(string \<times> string list) list \<Rightarrow> vlt_record \<Rightarrow> error + (string \<times> string list) list" where
  "collect_values cv r =
     (let attrs = get_dict (attributes r);
          cols = get_dict (colors r);
          sty = get_dict (style r)
      in case fold_err (\<lambda>c key. add_present attrs key key c) cv attr_keys of
           Inl e \<Rightarrow> Inl e
         | Inr c1 \<Rightarrow>
             (case add_present cols ''primary'' ''primary_color'' c1 of
                Inl e \<Rightarrow> Inl e
              | Inr c2 \<Rightarrow>
                  (case add_present cols ''finish'' ''finish'' c2 of
                     Inl e \<Rightarrow> Inl e
                   | Inr c3 \<Rightarrow> fold_err (\<lambda>c key. add_present sty key key c) c3 style_keys)))"

definition categorical_values :: "vlt_record list \<Rightarrow> error + (string \<times> string list) list" where
  "categorical_values vlt_records = fold_err collect_values [] vlt_records"

text \<open>\<^verbatim>\<open>key.split('_')[0] if '_' in key else key\<close>.\<close>

definition style_field :: "string \<Rightarrow> string" where
  "style_field key =
     (if CHR ''_'' \<in> set key then takeWhile (\<lambda>c. c \<noteq> CHR ''_'') key else key)"

text \<open>One entry of the one-hot row: the \<^verbatim>\<open>if/elif/else\<close> of the inner loop.\<close>

definition one_hot :: "vlt_record \<Rightarrow> string \<Rightarrow> string \<Rightarrow> error + real" where
  "one_hot r key val =
     (case (if key \<in> set attr_keys then dict_get (get_dict (attributes r)) key
            else if key = ''primary_color'' then dict_get (get_dict (colors r)) ''primary''
            else if key = ''finish'' then dict_get (get_dict (colors r)) ''finish''
            else dict_get (get_dict (style r)) (style_field key)) of
        Inl e \<Rightarrow> Inl e
      | Inr v \<Rightarrow> Inr (if v = Some val then 1 else 0))"

text \<open>
  The columns in the order of the two nested loops
  \<^verbatim>\<open>for key, values in categorical_values.items(): for value in sorted(values)\<close>.
\<close>

definition columns :: "(string \<times> string list) list \<Rightarrow> (string \<times> string) list" where
  "columns cv = concat (map (\<lambda>(key, vals). map (Pair key) (sort vals)) cv)"

definition feature_vector :: "(string \<times> string list) list \<Rightarrow> vlt_record \<Rightarrow> error + real list" where
  "feature_vector cv r = map_err (\<lambda>(key, val). one_hot r key val) (columns cv)"

text \<open>
  \<^verbatim>\<open>_extract_features\<close>: the matrix (one row per record) and the feature names, which
  are collected while the first record is encoded.
\<close>

definition extract_features :: "vlt_record list \<Rightarrow> error + (matrix \<times> string list)" where
  "extract_features vlt_records =
     (case categorical_values vlt_records of
        Inl e \<Rightarrow> Inl e
      | Inr cv \<Rightarrow>
          (case map_err (feature_vector cv) vlt_records of
             Inl e \<Rightarrow> Inl e
           | Inr feature_vectors \<Rightarrow>
               Inr (feature_vectors,
                    if vlt_records = [] then []
                    else map (\<lambda>(key, val). key @ ''_'' @ val) (columns cv))))"

section \<open>Cluster analysis\<close>

definition digit_char :: "nat \<Rightarrow> char" where
  "digit_char d = ''0123456789'' ! d"

fun show_nat :: "nat \<Rightarrow> string" where
  "show_nat n = (if n < 10 then [digit_char n] else show_nat (n div 10) @ [digit_char (n mod 10)])"

declare show_nat.simps [simp del]

text \<open>\<^verbatim>\<open>records[i].get('imageId', records[i].get('id', f'record_{i}'))\<close>.\<close>

definition record_name :: "vlt_record \<Rightarrow> nat \<Rightarrow> string" where
  "record_name r i =
     (case imageId r of Some s \<Rightarrow> s
      | None \<Rightarrow> (case rec_id r of Some s \<Rightarrow> s | None \<Rightarrow> ''record_'' @ show_nat i))"

text \<open>
  \<^verbatim>\<open>_find_representative_records\<close>: \<^verbatim>\<open>np.argsort(probabilities)[-3:][::-1]\<close>, then the
  names of the records at those positions. \<^verbatim>\<open>argsort\<close> is taken as the stable sort of
  the positions.
\<close>

definition find_representative_records :: "vlt_record list \<Rightarrow> real list \<Rightarrow> nat \<Rightarrow> string list" where
  "find_representative_records records probs n_representatives =
     (let order = sort_key (\<lambda>i. probs ! i) [0..<length probs];
          top_indices = rev (drop (length order - n_representatives) order)
      in map (\<lambda>i. record_name (records ! i) i) (filter (\<lambda>i. i < length records) top_indices))"

text \<open>\<^verbatim>\<open>mean\<close> of an array; \<^verbatim>\<open>nan\<close> on the empty one.\<close>

definition mean :: "real list \<Rightarrow> real option" where
  "mean xs = (if xs = [] then None else Some (sum_list xs / real (length xs)))"

text \<open>\<^verbatim>\<open>labels.max()\<close>, which raises on an empty array.\<close>

definition labels_max :: "nat list \<Rightarrow> nat option" where
  "labels_max labels = (case labels of [] \<Rightarrow> None | l # ls \<Rightarrow> Some (foldl max l ls))"

text \<open>Selection by the boolean mask \<^verbatim>\<open>labels == c\<close>.\<close>

definition masked :: "nat list \<Rightarrow> nat \<Rightarrow> 'a list \<Rightarrow> 'a list" where
  "masked labels c xs = map snd (filter (\<lambda>(l, x). l = c) (zip labels xs))"

definition mask_sum :: "nat list \<Rightarrow> nat \<Rightarrow> nat" where
  "mask_sum labels c = length (filter (\<lambda>l. l = c) labels)"

text \<open>The dictionary \<^verbatim>\<open>cluster_info\<close> of one iteration of \<^verbatim>\<open>_analyze_clusters\<close>.\<close>

definition cluster_info :: "vlt_record list \<Rightarrow> nat list \<Rightarrow> matrix \<Rightarrow> nat \<Rightarrow> error + cluster" where
  "cluster_info vlt_records labels probabilities c =
     (let cluster_records = masked labels c vlt_records;
          cluster_probs = map (\<lambda>row. row ! c) (masked labels c probabilities)
      in case find_dominant_attributes cluster_records of
           Inl e \<Rightarrow> Inl e
         | Inr dominant_attrs \<Rightarrow>
             Inr \<lparr>cluster_id = c,
                  cluster_size = mask_sum labels c,
                  percentage = real (mask_sum labels c) / real (length vlt_records) * 100,
                  dominant_attributes = dominant_attrs,
                  centroid_confidence = mean cluster_probs,
                  representative_records = find_representative_records cluster_records cluster_probs 3,
                  style_summary = summarize_cluster_style dominant_attrs\<rparr>)"

text \<open>
  \<^verbatim>\<open>_analyze_clusters\<close>. The array operations raise when the labels are empty
  (\<^verbatim>\<open>labels.max()\<close>), when the mask does not fit the records or the feature rows, or when
  a probability row has no column for a cluster. The final sort is Python's stable sort
  with \<^verbatim>\<open>reverse=True\<close>: descending by size, equal sizes in their first order.
\<close>

definition analyze_clusters ::
  "vlt_record list \<Rightarrow> nat list \<Rightarrow> matrix \<Rightarrow> matrix \<Rightarrow> error + cluster list" where
  "analyze_clusters vlt_records labels probabilities features =
     (case labels_max labels of
        None \<Rightarrow> Inl EmptyLabels
      | Some m \<Rightarrow>
          if length labels = length vlt_records \<and> length features = length labels \<and>
             length probabilities = length labels \<and> list_all (\<lambda>row. m < length row) probabilities
          then (case map_err (cluster_info vlt_records labels probabilities) [0..<m + 1] of
                  Inl e \<Rightarrow> Inl e
                | Inr cs \<Rightarrow> Inr (sort_key (\<lambda>c. - int (cluster_size c)) cs))
          else Inl IndexError)"

section \<open>Statistics and feature importance\<close>

definition count_key :: "string \<Rightarrow> (string \<times> nat) list \<Rightarrow> (string \<times> nat) list" where
  "count_key k d = dict_upd k Suc 0 d"

definition count_opt :: "string option \<Rightarrow> (string \<times> nat) list \<Rightarrow> (string \<times> nat) list" where
  "count_opt v d = (case v of None \<Rightarrow> d | Some k \<Rightarrow> count_key k d)"

definition max_percentage :: "cluster list \<Rightarrow> real" where
  "max_percentage cs = (case map percentage cs of [] \<Rightarrow> 0 | p # ps \<Rightarrow> foldl max p ps)"

text \<open>
  The body of the loop of \<^verbatim>\<open>_compute_statistics\<close> on the three counters.
  \<^verbatim>\<open>'colors' in record and 'primary' in record['colors']\<close> is false for a missing key and
  raises TypeError for a key whose value is \<^verbatim>\<open>None\<close>.
\<close>

definition count_statistics ::
  "(string \<times> nat) list \<times> (string \<times> nat) list \<times> (string \<times> nat) list \<Rightarrow> vlt_record \<Rightarrow>
     error + ((string \<times> nat) list \<times> (string \<times> nat) list \<times> (string \<times> nat) list)" where
  "count_statistics acc r =
     (case acc of (garment_types, all_colors, all_styles) \<Rightarrow>
        (case dict_find (get_dict (colors r)) ''primary'' of
           Inl e \<Rightarrow> Inl e
         | Inr primary \<Rightarrow>
             (case dict_find (get_dict (style r)) ''overall'' of
                Inl e \<Rightarrow> Inl e
              | Inr overall \<Rightarrow>
                  Inr (count_key (case garment_type r of None \<Rightarrow> ''unknown'' | Some g \<Rightarrow> g) garment_types,
                       count_opt primary all_colors,
                       count_opt overall all_styles))))"

definition compute_statistics :: "vlt_record list \<Rightarrow> cluster list \<Rightarrow> error + stats" where
  "compute_statistics vlt_records cs =
     (case fold_err count_statistics ([], [], []) vlt_records of
        Inl e \<Rightarrow> Inl e
      | Inr (garment_types, all_colors, all_styles) \<Rightarrow>
          Inr \<lparr>garment_distribution = garment_types,
               color_distribution = all_colors,
               style_distribution = all_styles,
               diversity_score =
                 (if vlt_records \<noteq> [] then real (length cs) / real (length vlt_records) else 0),
               largest_cluster_percentage = max_percentage cs\<rparr>)"

section \<open>The numeric library and the profile store\<close>

text \<open>
  The scaler, the projection, the mixture model and the random forest belong to the
  numeric library, which is not part of the repository: they are parameters of the
  model. Each operation may raise (\<open>None\<close>). The types \<open>'s\<close>, \<open>'p\<close> and \<open>'g\<close> are the
  fitted scaler, projection and mixture model. \<open>gmm_fit_predict\<close> takes the number of
  components and the seed \<^verbatim>\<open>random_state\<close>; \<open>forest_importances\<close> takes the number of
  estimators and the seed; the projection is constructed without a seed.
\<close>

record ('s, 'p, 'g) sklearn =
  scaler_fit_transform :: "matrix \<Rightarrow> ('s \<times> matrix) option"
  scaler_transform :: "'s \<Rightarrow> matrix \<Rightarrow> matrix option"
  pca_fit_transform :: "nat \<Rightarrow> matrix \<Rightarrow> ('p \<times> matrix) option"
  pca_transform :: "'p \<Rightarrow> matrix \<Rightarrow> matrix option"
  gmm_fit_predict :: "int \<Rightarrow> nat \<Rightarrow> matrix \<Rightarrow> ('g \<times> nat list) option"
  gmm_predict :: "'g \<Rightarrow> matrix \<Rightarrow> nat list option"
  gmm_predict_proba :: "'g \<Rightarrow> matrix \<Rightarrow> matrix option"
  forest_importances :: "nat \<Rightarrow> nat \<Rightarrow> matrix \<Rightarrow> nat list \<Rightarrow> real list option"

text \<open>
  The state of a \<^verbatim>\<open>StyleProfiler\<close>: the cache \<^verbatim>\<open>self.profiles\<close> and the two files per
  user under \<^verbatim>\<open>models_dir\<close>.
\<close>

record ('s, 'p, 'g) store =
  profiles :: "string \<rightharpoonup> profile"
  profile_files :: "string \<rightharpoonup> profile"
  model_files :: "string \<rightharpoonup> ('g \<times> 's \<times> 'p)"

definition get_profile :: "('s, 'p, 'g) store \<Rightarrow> string \<Rightarrow> ('s, 'p, 'g) store \<times> profile option" where
  "get_profile st uid =
     (case profiles st uid of
        Some p \<Rightarrow> (st, Some p)
      | None \<Rightarrow>
          (case profile_files st uid of
             Some p \<Rightarrow> (st\<lparr>profiles := (profiles st)(uid \<mapsto> p)\<rparr>, Some p)
           | None \<Rightarrow> (st, None)))"

definition save_profile ::
  "('s, 'p, 'g) store \<Rightarrow> string \<Rightarrow> profile \<Rightarrow> 'g \<Rightarrow> 's \<Rightarrow> 'p \<Rightarrow> ('s, 'p, 'g) store" where
  "save_profile st uid prof gmm scaler pca =
     st\<lparr>profile_files := (profile_files st)(uid \<mapsto> prof),
        model_files := (model_files st)(uid \<mapsto> (gmm, scaler, pca))\<rparr>"

definition load_models :: "('s, 'p, 'g) store \<Rightarrow> string \<Rightarrow> error + ('g \<times> 's \<times> 'p)" where
  "load_models st uid =
     (case model_files st uid of None \<Rightarrow> Inl ModelLoadFailure | Some m \<Rightarrow> Inr m)"

text \<open>\<^verbatim>\<open>_get_all_vlt_records\<close>: the database fetch is not implemented.\<close>

definition get_all_vlt_records :: "string \<Rightarrow> vlt_record list" where
  "get_all_vlt_records uid = []"

text \<open>\<^verbatim>\<open>dict(pairs)\<close>: a later pair with the same key replaces the value.\<close>

definition dict_of :: "(string \<times> real) list \<Rightarrow> (string \<times> real) list" where
  "dict_of pairs = foldl (\<lambda>d (k, v). dict_upd k (\<lambda>_. v) v d) [] pairs"

definition compute_feature_importance ::
  "('s, 'p, 'g) sklearn \<Rightarrow> matrix \<Rightarrow> string list \<Rightarrow> nat list \<Rightarrow> error + (string \<times> real) list" where
  "compute_feature_importance lib features feature_names labels =
     (if length (remdups labels) < 2 then Inr []
      else (case forest_importances lib 50 42 features labels of
              None \<Rightarrow> Inl ForestFailure
            | Some imp \<Rightarrow>
                Inr (dict_of (take 10 (sort_key (\<lambda>(name, v). - v)
                                          (dict_of (zip feature_names imp)))))))"

text \<open>\<^verbatim>\<open>features_scaled.shape[1]\<close>; an array built from no rows has one dimension only.\<close>

definition shape1 :: "matrix \<Rightarrow> nat option" where
  "shape1 X = (case X of [] \<Rightarrow> None | row # rows \<Rightarrow> Some (length row))"

text \<open>The clamp at the head of \<^verbatim>\<open>create_profile\<close>.\<close>

definition clamp_clusters :: "nat \<Rightarrow> int \<Rightarrow> int" where
  "clamp_clusters n k = (if int n < k then max 1 (int n) else k)"

section \<open>Creating and updating a profile\<close>

text \<open>
  The fitting part of \<^verbatim>\<open>create_profile\<close>: features, scaling, projection, mixture
  model. It returns the component count used, the features and their names, the
  fitted models, the labels and the membership probabilities.
\<close>

definition fit_stage ::
  "('s, 'p, 'g) sklearn \<Rightarrow> vlt_record list \<Rightarrow> int \<Rightarrow>
     error + (int \<times> matrix \<times> string list \<times> ('g \<times> 's \<times> 'p) \<times> nat list \<times> matrix)" where
  "fit_stage lib vlt_records k =
     (let n = clamp_clusters (length vlt_records) k
      in case extract_features vlt_records of
           Inl e \<Rightarrow> Inl e
         | Inr (features, feature_names) \<Rightarrow>
             (case scaler_fit_transform lib features of
                None \<Rightarrow> Inl ScalerFailure
              | Some (scaler, features_scaled) \<Rightarrow>
                  (case shape1 features_scaled of
                     None \<Rightarrow> Inl IndexError
                   | Some d \<Rightarrow>
                       (case pca_fit_transform lib (min 10 (min (length features_scaled) d)) features_scaled of
                          None \<Rightarrow> Inl PCAFailure
                        | Some (pca, features_pca) \<Rightarrow>
                            (case gmm_fit_predict lib n 42 features_pca of
                               None \<Rightarrow> Inl MixtureFailure
                             | Some (gmm, cluster_labels) \<Rightarrow>
                                 (case gmm_predict_proba lib gmm features_pca of
                                    None \<Rightarrow> Inl MixtureFailure
                                  | Some probabilities \<Rightarrow>
                                      Inr (n, features, feature_names, (gmm, scaler, pca),
                                           cluster_labels, probabilities)))))))"

text \<open>
  \<^verbatim>\<open>create_profile\<close>. \<open>t_created\<close> and \<open>t_updated\<close> are the two readings of the clock.
  The store is returned also when the call raises.
\<close>

definition create_profile ::
  "('s, 'p, 'g) sklearn \<Rightarrow> string \<Rightarrow> string \<Rightarrow> ('s, 'p, 'g) store \<Rightarrow> string \<Rightarrow> vlt_record list \<Rightarrow> int \<Rightarrow>
     ('s, 'p, 'g) store \<times> (error + profile)" where
  "create_profile lib t_created t_updated st uid vlt_records k =
     (case fit_stage lib vlt_records k of
        Inl e \<Rightarrow> (st, Inl e)
      | Inr (n, features, feature_names, (gmm, scaler, pca), cluster_labels, probabilities) \<Rightarrow>
          (case analyze_clusters vlt_records cluster_labels probabilities features of
             Inl e \<Rightarrow> (st, Inl e)
           | Inr cs \<Rightarrow>
               (case compute_statistics vlt_records cs of
                  Inl e \<Rightarrow> (st, Inl e)
                | Inr statistics_now \<Rightarrow>
                    (case compute_feature_importance lib features feature_names cluster_labels of
                       Inl e \<Rightarrow> (st, Inl e)
                     | Inr importance \<Rightarrow>
                         (let prof = \<lparr>user_id = uid,
                                      n_records = length vlt_records,
                                      n_clusters = n,
                                      clusters = cs,
                                      statistics = statistics_now,
                                      feature_importance = importance,
                                      created_at = t_created,
                                      updated_at = t_updated\<rparr>;
                              st' = save_profile st uid prof gmm scaler pca
                          in (st'\<lparr>profiles := (profiles st')(uid \<mapsto> prof)\<rparr>, Inr prof))))))"

text \<open>
  The body of the loop of \<^verbatim>\<open>_update_cluster_stats\<close> for the cluster at position
  \<open>pos\<close> of the list. Reading the mask at a record's position raises when the labels
  are fewer than the records.
\<close>

definition update_cluster :: "vlt_record list \<Rightarrow> nat list \<Rightarrow> nat \<Rightarrow> cluster \<Rightarrow> error + cluster" where
  "update_cluster new_records new_labels pos c =
     (if pos \<in> set new_labels then
        (if length new_labels < length new_records then Inl IndexError
         else (let new_cluster_records = masked new_labels pos new_records
               in case find_dominant_attributes new_cluster_records of
                    Inl e \<Rightarrow> Inl e
                  | Inr dominant_attrs \<Rightarrow>
                      Inr (c\<lparr>cluster_size := cluster_size c + length new_cluster_records,
                            dominant_attributes := dominant_attrs\<rparr>)))
      else Inr c)"

fun update_from :: "vlt_record list \<Rightarrow> nat list \<Rightarrow> nat \<Rightarrow> cluster list \<Rightarrow> error + cluster list" where
  "update_from new_records new_labels pos [] = Inr []"
| "update_from new_records new_labels pos (c # cs) =
     (case update_cluster new_records new_labels pos c of
        Inl e \<Rightarrow> Inl e
      | Inr c' \<Rightarrow>
          (case update_from new_records new_labels (Suc pos) cs of
             Inl e \<Rightarrow> Inl e
           | Inr cs' \<Rightarrow> Inr (c' # cs')))"

text \<open>\<^verbatim>\<open>_update_cluster_stats\<close>: \<^verbatim>\<open>for cluster_id, cluster in enumerate(existing_clusters)\<close>.\<close>

definition update_cluster_stats :: "cluster list \<Rightarrow> vlt_record list \<Rightarrow> nat list \<Rightarrow> error + cluster list" where
  "update_cluster_stats existing_clusters new_records new_labels =
     update_from new_records new_labels 0 existing_clusters"

text \<open>\<^verbatim>\<open>update_profile\<close>; \<open>now\<close> is the reading of the clock.\<close>

definition update_profile ::
  "('s, 'p, 'g) sklearn \<Rightarrow> string \<Rightarrow> ('s, 'p, 'g) store \<Rightarrow> string \<Rightarrow> vlt_record list \<Rightarrow>
     ('s, 'p, 'g) store \<times> (error + profile)" where
  "update_profile lib now st uid new_vlt_records =
     (case get_profile st uid of
        (st1, None) \<Rightarrow> (st1, Inl ProfileNotFound)
      | (st1, Some prof) \<Rightarrow>
          (case load_models st1 uid of
             Inl e \<Rightarrow> (st1, Inl e)
           | Inr (gmm, scaler, pca) \<Rightarrow>
               (case extract_features new_vlt_records of
                  Inl e \<Rightarrow> (st1, Inl e)
                | Inr (new_features, feature_names) \<Rightarrow>
                    (case scaler_transform lib scaler new_features of
                       None \<Rightarrow> (st1, Inl ScalerFailure)
                     | Some new_features_scaled \<Rightarrow>
                         (case pca_transform lib pca new_features_scaled of
                            None \<Rightarrow> (st1, Inl PCAFailure)
                          | Some new_features_pca \<Rightarrow>
                              (case gmm_predict lib gmm new_features_pca of
                                 None \<Rightarrow> (st1, Inl MixtureFailure)
                               | Some new_labels \<Rightarrow>
                                   (case gmm_predict_proba lib gmm new_features_pca of
                                      None \<Rightarrow> (st1, Inl MixtureFailure)
                                    | Some new_probabilities \<Rightarrow>
                                        (case update_cluster_stats (clusters prof) new_vlt_records new_labels of
                                           Inl e \<Rightarrow> (st1, Inl e)
                                         | Inr updated_clusters \<Rightarrow>
                                             (case compute_statistics (get_all_vlt_records uid) updated_clusters of
                                                Inl e \<Rightarrow> (st1, Inl e)
                                              | Inr statistics_now \<Rightarrow>
                                                  (let prof' = prof\<lparr>clusters := updated_clusters,
                                                                    n_records := n_records prof + length new_vlt_records,
                                                                    updated_at := now,
                                                                    statistics := statistics_now\<rparr>;
                                                       st2 = save_profile st1 uid prof' gmm scaler pca
                                                   in (st2\<lparr>profiles := (profiles st2)(uid \<mapsto> prof')\<rparr>, Inr prof')))))))))))"

section \<open>Names used in the statements, and a small concrete instance\<close>

text \<open>The seven names that the archetype branches of \<^verbatim>\<open>_summarize_cluster_style\<close> return.\<close>

definition archetype_names :: "string list" where
  "archetype_names = [''Minimalist Tailoring'', ''Fluid Evening'', ''Experimental Edge'',
     ''Sporty Chic'', ''Romantic Bohemian'', ''Urban Contemporary'', ''Classic Refined'']"




text \<open>
  Four records: a tailored jacket, a fluid dress, a record without fields, and the
  dictionary that \<^verbatim>\<open>record.dict()\<close> of \<^verbatim>\<open>main_minimal.py\<close> gives for a record sent
  without any field (every optional mapping is there with the value \<^verbatim>\<open>None\<close>).
\<close>

definition rec_tailored :: vlt_record where
  "rec_tailored = \<lparr>rec_id = Some ''a'', imageId = None, garment_type = Some ''jacket'',
     attributes = Mapping [(''silhouette'', ''tailored'')], colors = Mapping [], style = Mapping []\<rparr>"

definition rec_fluid :: vlt_record where
  "rec_fluid = \<lparr>rec_id = Some ''b'', imageId = None, garment_type = Some ''dress'',
     attributes = Mapping [(''silhouette'', ''fluid'')], colors = Mapping [], style = Mapping []\<rparr>"

definition rec_bare :: vlt_record where
  "rec_bare = \<lparr>rec_id = Some ''c'', imageId = None, garment_type = None,
     attributes = Absent, colors = Mapping [], style = Absent\<rparr>"

definition rec_omitted :: vlt_record where
  "rec_omitted = \<lparr>rec_id = None, imageId = None, garment_type = None,
     attributes = PyNone, colors = PyNone, style = PyNone\<rparr>"

text \<open>
  A stand-in for the numeric library, on which the definitions can be evaluated. It
  checks shapes as the library does: the scaler and the projection want a matrix with
  rows and columns, a fitted scaler, projection or mixture model wants the number of
  columns it was fitted on, and the mixture model wants at least two samples and no
  more components than samples. The scaler returns the matrix unchanged, the projection
  keeps the first \<open>n\<close> columns, and the mixture model labels a row 0 when its first
  entry is 1 and 1 otherwise (never beyond the last component).
\<close>

definition uniform_cols :: "matrix \<Rightarrow> nat option" where
  "uniform_cols X =
     (case X of
        [] \<Rightarrow> None
      | row # rows \<Rightarrow>
          if row \<noteq> [] \<and> list_all (\<lambda>r. length r = length row) rows then Some (length row)
          else None)"

definition toy_label :: "nat \<Rightarrow> real list \<Rightarrow> nat" where
  "toy_label n row = min (n - 1) (case row of [] \<Rightarrow> 0 | x # xs \<Rightarrow> if x = 1 then 0 else 1)"

definition toy_lib :: "(nat, nat \<times> nat, nat \<times> nat) sklearn" where
  "toy_lib =
     \<lparr>scaler_fit_transform =
        (\<lambda>X. case uniform_cols X of None \<Rightarrow> None | Some d \<Rightarrow> Some (d, X)),
      scaler_transform =
        (\<lambda>d X. if uniform_cols X = Some d then Some X else None),
      pca_fit_transform =
        (\<lambda>n X. case uniform_cols X of
                  None \<Rightarrow> None
                | Some d \<Rightarrow> if 0 < n \<and> n \<le> min (length X) d then Some ((d, n), map (take n) X)
                            else None),
      pca_transform =
        (\<lambda>p X. if uniform_cols X = Some (fst p) then Some (map (take (snd p)) X) else None),
      gmm_fit_predict =
        (\<lambda>n seed X. case uniform_cols X of
                       None \<Rightarrow> None
                     | Some d \<Rightarrow>
                         if 2 \<le> length X \<and> 1 \<le> n \<and> n \<le> int (length X)
                         then Some ((d, nat n), map (toy_label (nat n)) X)
                         else None),
      gmm_predict =
        (\<lambda>g X. if uniform_cols X = Some (fst g) then Some (map (toy_label (snd g)) X) else None),
      gmm_predict_proba =
        (\<lambda>g X. if uniform_cols X = Some (fst g)
                then Some (map (\<lambda>row. map (\<lambda>c. if c = toy_label (snd g) row then 1 else 0) [0..<snd g]) X)
                else None),
      forest_importances =
        (\<lambda>n seed X ls. case uniform_cols X of
                          None \<Rightarrow> None
                        | Some d \<Rightarrow> Some (replicate d (1 / real d)))\<rparr>"

definition empty_store :: "(nat, nat \<times> nat, nat \<times> nat) store" where
  "empty_store = \<lparr>profiles = Map.empty, profile_files = Map.empty, model_files = Map.empty\<rparr>"

text \<open>
  The store left by creating a profile for user \<open>u\<close> from three records, two tailored
  and one fluid, and the profile that this call returns.
\<close>

definition toy_store :: "(nat, nat \<times> nat, nat \<times> nat) store" where
  "toy_store =
     fst (create_profile toy_lib ''t0'' ''t0'' empty_store ''u''
            [rec_tailored, rec_tailored, rec_fluid] 5)"

definition toy_profile :: profile where
  "toy_profile =
     \<lparr>user_id = ''u'', n_records = 3, n_clusters = 3,
      clusters =
        [\<lparr>cluster_id = 1, cluster_size = 2, percentage = 200 / 3,
            dominant_attributes = [(''silhouette'', ''tailored'', 2)],
            centroid_confidence = Some 1,
            representative_records = [''a'', ''a''],
            style_summary = ''Minimalist Tailoring''\<rparr>,
         \<lparr>cluster_id = 0, cluster_size = 1, percentage = 100 / 3,
            dominant_attributes = [(''silhouette'', ''fluid'', 1)],
            centroid_confidence = Some 1,
            representative_records = [''b''],
            style_summary = ''Fluid Evening''\<rparr>],
      statistics =
        \<lparr>garment_distribution = [(''jacket'', 2), (''dress'', 1)],
           color_distribution = [], style_distribution = [],
           diversity_score = 2 / 3, largest_cluster_percentage = 200 / 3\<rparr>,
      feature_importance = [(''silhouette_fluid'', 1 / 2), (''silhouette_tailored'', 1 / 2)],
      created_at = ''t0'', updated_at = ''t0''\<rparr>"

section \<open>The style name\<close>

lemma style_parts_length: "length (style_parts ov a s f) = 2"
  by (simp add: style_parts_def)

lemma compose_name_two: "compose_name [p, q] = p @ '' '' @ q"
  by (simp add: compose_name_def)

text \<open>
  Claim C10, as stated: the style name is one of the seven archetype names or a two-word
  composed name. It fails for a dominant aesthetic of two words: the composed name
  \<open>Dark Academia Mix\<close> is none of the seven names and has three words (two spaces).
\<close>

theorem style_name_three_words:
  "(let name = summarize_cluster_style [(''style_aesthetic'', (''Dark Academia'', 1))]
    in name = ''Dark Academia Mix'' \<and> name \<notin> set archetype_names \<and>
       length (filter (\<lambda>c. c = CHR '' '') name) = 2)"
  by code_simp

text \<open>
  Claim C10, amended: the fallback always assembles exactly two name parts, so the
  placeholder branch (taken only for fewer than two parts) is unreachable, and the
  style name is one of the seven archetype names or the two parts joined by one space.
  A part is a title-cased attribute value or a fixed word; it may contain spaces.
\<close>

theorem style_name_archetype_or_two_parts:
  "length (style_parts ov a s f) = 2 \<and>
   (summarize_cluster_style d \<in> set archetype_names \<or>
    (\<exists>p q. style_parts (dominant_value d ''style_overall'') (dominant_value d ''style_aesthetic'')
              (dominant_value d ''silhouette'') (dominant_value d ''fabrication'') = [p, q] \<and>
           summarize_cluster_style d = p @ '' '' @ q))"
proof
  show "length (style_parts ov a s f) = 2"
    by (rule style_parts_length)
next
  let ?parts = "style_parts (dominant_value d ''style_overall'') (dominant_value d ''style_aesthetic'')
                  (dominant_value d ''silhouette'') (dominant_value d ''fabrication'')"
  obtain p q where pq: "?parts = [p, q]"
    by (simp add: style_parts_def)
  have "summarize_cluster_style d \<in> set archetype_names \<or>
        summarize_cluster_style d = compose_name ?parts"
    by (simp add: summarize_cluster_style_def archetype_names_def Let_def)
  then show "summarize_cluster_style d \<in> set archetype_names \<or>
    (\<exists>p q. ?parts = [p, q] \<and> summarize_cluster_style d = p @ '' '' @ q)"
    using pq compose_name_two by metis
qed

text \<open>The amended claim C10 at the dominant attributes of the counterexample.\<close>

theorem style_name_archetype_or_two_parts_witness:
  "length (style_parts ''unknown'' ''dark academia'' ''unknown'' ''unknown'') = 2 \<and>
   (summarize_cluster_style [(''style_aesthetic'', (''Dark Academia'', 1))] \<in> set archetype_names \<or>
    (\<exists>p q. style_parts (dominant_value [(''style_aesthetic'', (''Dark Academia'', 1))] ''style_overall'')
              (dominant_value [(''style_aesthetic'', (''Dark Academia'', 1))] ''style_aesthetic'')
              (dominant_value [(''style_aesthetic'', (''Dark Academia'', 1))] ''silhouette'')
              (dominant_value [(''style_aesthetic'', (''Dark Academia'', 1))] ''fabrication'') = [p, q] \<and>
           summarize_cluster_style [(''style_aesthetic'', (''Dark Academia'', 1))] = p @ '' '' @ q))"
  by (rule style_name_archetype_or_two_parts)

section \<open>Loops that may raise\<close>



lemma map_err_Inr_map:
  assumes "map_err f xs = Inr ys" and "\<And>x y. x \<in> set xs \<Longrightarrow> f x = Inr y \<Longrightarrow> g y = h x"
  shows "map g ys = map h xs"
  using assms by (induction xs arbitrary: ys) (auto split: sum.splits)

lemma map_err_Inl: "map_err f xs = Inl e \<Longrightarrow> \<exists>x \<in> set xs. f x = Inl e"
  by (induction xs) (auto split: sum.splits)














section \<open>Feature extraction with missing fields\<close>




















lemma compute_statistics_Nil:
  "compute_statistics [] cs =
     Inr \<lparr>garment_distribution = [], color_distribution = [], style_distribution = [],
          diversity_score = 0, largest_cluster_percentage = max_percentage cs\<rparr>"
  by (simp add: compute_statistics_def)

text \<open>
  Claim C6 fails on the code. The claim is that absent optional fields never make
  feature extraction raise. A record of \<^verbatim>\<open>main_minimal.py\<close> that was sent without its
  optional mappings reaches the profiler with the keys \<^verbatim>\<open>attributes\<close>, \<^verbatim>\<open>colors\<close> and
  \<^verbatim>\<open>style\<close> present and \<^verbatim>\<open>None\<close>; \<^verbatim>\<open>record.get('attributes', {})\<close> then returns
  \<^verbatim>\<open>None\<close>, and \<^verbatim>\<open>key in attrs\<close> raises TypeError: alone, in a batch between two
  populated records, and through \<^verbatim>\<open>create_profile\<close>.
\<close>

theorem extract_features_none_mapping_raises:
  "extract_features [rec_omitted] = Inl TypeError \<and>
   extract_features [rec_tailored, rec_omitted, rec_fluid] = Inl TypeError \<and>
   snd (create_profile toy_lib ''t0'' ''t0'' empty_store ''u'' [rec_tailored, rec_omitted, rec_fluid] 2)
     = Inl TypeError"
  by code_simp

section \<open>Cluster sizes and percentages\<close>

lemma foldl_max_ge: "(a::nat) \<le> foldl max a ls \<and> (\<forall>x \<in> set ls. x \<le> foldl max a ls)"
proof (induction ls arbitrary: a)
  case Nil
  show ?case by simp
next
  case (Cons l ls)
  from Cons.IH [of "max a l"] show ?case by auto
qed

lemma labels_max_bound: "labels_max labels = Some m \<Longrightarrow> l \<in> set labels \<Longrightarrow> l \<le> m"
  using foldl_max_ge by (auto simp: labels_max_def split: list.splits)

lemma labels_max_nonempty: "labels_max labels = Some m \<Longrightarrow> labels \<noteq> []"
  by (auto simp: labels_max_def)

lemma sum_list_indicator:
  "sum_list (map (\<lambda>c. if l = c then 1 else 0) [0..<n]) = (if l < n then 1 else (0::nat))"
  by (induction n) auto

lemma mask_sum_Cons: "mask_sum (l # ls) = (\<lambda>c. (if l = c then 1 else 0) + mask_sum ls c)"
  by (rule ext) (simp add: mask_sum_def)

lemma mask_sum_total:
  "\<forall>l \<in> set labels. l < n \<Longrightarrow> sum_list (map (mask_sum labels) [0..<n]) = length labels"
proof (induction labels)
  case Nil
  show ?case by (simp add: mask_sum_def)
next
  case (Cons l ls)
  have "sum_list (map (mask_sum (l # ls)) [0..<n])
        = sum_list (map (\<lambda>c. (if l = c then 1 else 0) + mask_sum ls c) [0..<n])"
    by (simp only: mask_sum_Cons)
  also have "\<dots> = sum_list (map (\<lambda>c. if l = c then 1 else 0) [0..<n]) + sum_list (map (mask_sum ls) [0..<n])"
    by (rule sum_list_addf)
  also have "\<dots> = 1 + length ls"
    using Cons by (simp add: sum_list_indicator)
  finally show ?case by simp
qed

lemma sum_list_sort_key:
  fixes f :: "'a \<Rightarrow> 'b::comm_monoid_add"
  shows "sum_list (map f (sort_key k xs)) = sum_list (map f xs)"
proof -
  have "mset (map f (sort_key k xs)) = mset (map f xs)"
    by simp
  then show ?thesis
    by (metis sum_mset_sum_list)
qed

lemma sum_list_percent:
  "sum_list (map (\<lambda>c. real (g c) / N * 100) cs) = real (sum_list (map g cs)) / N * 100"
  by (induction cs) (simp_all add: add_divide_distrib distrib_right)

lemma cluster_info_size:
  "cluster_info rs labels P c = Inr x \<Longrightarrow> cluster_size x = mask_sum labels c"
  by (auto simp: cluster_info_def Let_def split: sum.splits)

lemma cluster_info_percentage:
  "cluster_info rs labels P c = Inr x \<Longrightarrow>
   percentage x = real (mask_sum labels c) / real (length rs) * 100"
  by (auto simp: cluster_info_def Let_def split: sum.splits)

lemma analyze_clusters_Inr:
  assumes "analyze_clusters rs labels P F = Inr cs"
  obtains m cs0 where "labels_max labels = Some m" "length labels = length rs"
    "map_err (cluster_info rs labels P) [0..<m + 1] = Inr cs0"
    "cs = sort_key (\<lambda>c. - int (cluster_size c)) cs0"
  using assms by (auto simp: analyze_clusters_def split: option.splits if_splits sum.splits)

lemma analyze_clusters_sums:
  assumes "analyze_clusters rs labels P F = Inr cs"
  shows "sum_list (map cluster_size cs) = length rs"
    and "sum_list (map percentage cs) = 100"
proof -
  from assms obtain m cs0 where m: "labels_max labels = Some m" and len: "length labels = length rs"
    and cs0: "map_err (cluster_info rs labels P) [0..<m + 1] = Inr cs0"
    and cs: "cs = sort_key (\<lambda>c. - int (cluster_size c)) cs0"
    by (rule analyze_clusters_Inr)
  have bound: "\<forall>l \<in> set labels. l < m + 1"
    using labels_max_bound [OF m] by fastforce
  have ne: "rs \<noteq> []"
    using labels_max_nonempty [OF m] len by auto
  have sizes0: "map cluster_size cs0 = map (mask_sum labels) [0..<m + 1]"
    using cs0 by (rule map_err_Inr_map) (rule cluster_info_size)
  have perc0: "map percentage cs0 =
               map (\<lambda>c. real (mask_sum labels c) / real (length rs) * 100) [0..<m + 1]"
    using cs0 by (rule map_err_Inr_map) (rule cluster_info_percentage)
  have sizes: "sum_list (map cluster_size cs0) = length rs"
    using mask_sum_total [OF bound] len by (simp add: sizes0)
  show "sum_list (map cluster_size cs) = length rs"
    unfolding cs sum_list_sort_key by (rule sizes)
  have "sum_list (map percentage cs0)
        = sum_list (map (\<lambda>c. real (mask_sum labels c) / real (length rs) * 100) [0..<m + 1])"
    by (simp only: perc0)
  also have "\<dots> = real (sum_list (map (mask_sum labels) [0..<m + 1])) / real (length rs) * 100"
    by (rule sum_list_percent)
  also have "\<dots> = 100"
    using mask_sum_total [OF bound] len ne by simp
  finally show "sum_list (map percentage cs) = 100"
    unfolding cs sum_list_sort_key .
qed

lemma create_profile_Inr:
  assumes "snd (create_profile lib t1 t2 st uid rs k) = Inr prof"
  obtains n F names gmm scaler pca labels P cs sts imp where
    "fit_stage lib rs k = Inr (n, F, names, (gmm, scaler, pca), labels, P)"
    "analyze_clusters rs labels P F = Inr cs"
    "compute_statistics rs cs = Inr sts"
    "compute_feature_importance lib F names labels = Inr imp"
    "prof = \<lparr>user_id = uid, n_records = length rs, n_clusters = n, clusters = cs,
              statistics = sts, feature_importance = imp,
              created_at = t1, updated_at = t2\<rparr>"
  using assms by (auto simp: create_profile_def Let_def split: sum.splits prod.splits)

lemma toy_create_result:
  "snd (create_profile toy_lib ''t0'' ''t0'' empty_store ''u''
          [rec_tailored, rec_tailored, rec_fluid] 5) = Inr toy_profile"
  by code_simp

text \<open>
  Claim C1: whenever \<^verbatim>\<open>create_profile\<close> returns a profile for a batch of \<open>N\<close> records,
  the batch is not empty, the sizes of the clusters of the profile sum to \<open>N\<close> and their
  percentages sum to 100. Percentages are reals here, so the sum is exact; the
  rounding of floating-point division is outside the model.
\<close>

theorem create_cluster_sizes_and_percentages:
  assumes "snd (create_profile lib t1 t2 st uid rs k) = Inr prof"
  shows "rs \<noteq> [] \<and> sum_list (map cluster_size (clusters prof)) = length rs \<and>
         sum_list (map percentage (clusters prof)) = 100"
proof -
  from assms obtain n F names gmm scaler pca labels P cs sts imp where
    an: "analyze_clusters rs labels P F = Inr cs" and
    pr: "prof = \<lparr>user_id = uid, n_records = length rs, n_clusters = n, clusters = cs,
              statistics = sts, feature_importance = imp,
              created_at = t1, updated_at = t2\<rparr>"
    by (rule create_profile_Inr)
  from pr have c: "clusters prof = cs" by simp
  from an obtain m where "labels_max labels = Some m" "length labels = length rs"
    by (rule analyze_clusters_Inr)
  then have "rs \<noteq> []" using labels_max_nonempty by fastforce
  then show ?thesis
    using analyze_clusters_sums [OF an] c by simp
qed

text \<open>Claim C1 at a batch of three records that falls into clusters of sizes 2 and 1.\<close>

theorem create_cluster_sizes_and_percentages_witness:
  "\<exists>prof. snd (create_profile toy_lib ''t0'' ''t0'' empty_store ''u''
                 [rec_tailored, rec_tailored, rec_fluid] 5) = Inr prof \<and>
     map cluster_size (clusters prof) = [2, 1] \<and>
     sum_list (map cluster_size (clusters prof)) = length [rec_tailored, rec_tailored, rec_fluid] \<and>
     sum_list (map percentage (clusters prof)) = 100"
  using create_cluster_sizes_and_percentages [OF toy_create_result] toy_create_result
  by (simp add: toy_profile_def)

section \<open>Updating a profile\<close>

lemma update_profile_Inr:
  assumes "snd (update_profile lib now st uid rs) = Inr prof'"
  obtains st1 prof gmm scaler pca labels cs sts where
    "get_profile st uid = (st1, Some prof)"
    "load_models st1 uid = Inr (gmm, scaler, pca)"
    "update_cluster_stats (clusters prof) rs labels = Inr cs"
    "compute_statistics (get_all_vlt_records uid) cs = Inr sts"
    "prof' = prof\<lparr>clusters := cs, n_records := n_records prof + length rs, updated_at := now,
                    statistics := sts\<rparr>"
    "fst (update_profile lib now st uid rs) =
       (save_profile st1 uid prof' gmm scaler pca)
         \<lparr>profiles := (profiles (save_profile st1 uid prof' gmm scaler pca))(uid \<mapsto> prof')\<rparr>"
  using assms
  by (auto simp: update_profile_def Let_def split: sum.splits prod.splits option.splits)

lemma toy_store_profile: "profiles toy_store ''u'' = Some toy_profile"
  by code_simp

lemma toy_get_profile: "snd (get_profile toy_store ''u'') = Some toy_profile"
  by (simp add: get_profile_def toy_store_profile)

lemma toy_update_result:
  "snd (update_profile toy_lib ''t1'' toy_store ''u'' [rec_fluid, rec_fluid, rec_tailored]) =
   Inr (toy_profile\<lparr>clusters :=
          [\<lparr>cluster_id = 1, cluster_size = 4, percentage = 200 / 3,
              dominant_attributes = [(''silhouette'', ''fluid'', 2)],
              centroid_confidence = Some 1,
              representative_records = [''a'', ''a''],
              style_summary = ''Minimalist Tailoring''\<rparr>,
           \<lparr>cluster_id = 0, cluster_size = 2, percentage = 100 / 3,
              dominant_attributes = [(''silhouette'', ''tailored'', 1)],
              centroid_confidence = Some 1,
              representative_records = [''b''],
              style_summary = ''Fluid Evening''\<rparr>],
        n_records := 6, updated_at := ''t1'',
        statistics := \<lparr>garment_distribution = [], color_distribution = [],
             style_distribution = [], diversity_score = 0,
             largest_cluster_percentage = 200 / 3\<rparr>\<rparr>)"
  by code_simp

text \<open>
  What \<^verbatim>\<open>_update_cluster_stats\<close> does: the cluster at position \<open>i\<close> of the stored list
  keeps its id and receives the new records whose label is \<open>i\<close>.
\<close>

lemma masked_absent: "c \<notin> set labels \<Longrightarrow> masked labels c xs = []"
  by (auto simp: masked_def filter_empty_conv dest: set_zip_leftD)

lemma update_cluster_by_position:
  assumes "update_cluster rs labels pos c = Inr c'"
  shows "cluster_id c' = cluster_id c \<and>
         cluster_size c' = cluster_size c + length (masked labels pos rs) \<and>
         (pos \<in> set labels \<longrightarrow>
            find_dominant_attributes (masked labels pos rs) = Inr (dominant_attributes c')) \<and>
         (pos \<notin> set labels \<longrightarrow> c' = c)"
  using assms
  by (auto simp: update_cluster_def Let_def masked_absent split: if_splits sum.splits)

lemma update_from_by_position:
  assumes "update_from rs labels pos cs = Inr cs'"
  shows "length cs' = length cs \<and>
         (\<forall>i < length cs.
            cluster_id (cs' ! i) = cluster_id (cs ! i) \<and>
            cluster_size (cs' ! i) = cluster_size (cs ! i) + length (masked labels (pos + i) rs))"
  using assms
proof (induction cs arbitrary: pos cs')
  case Nil
  then show ?case by simp
next
  case (Cons c cs)
  from Cons.prems obtain c' cs'' where
    c': "update_cluster rs labels pos c = Inr c'" and
    r: "update_from rs labels (Suc pos) cs = Inr cs''" and
    e: "cs' = c' # cs''"
    by (auto split: sum.splits)
  from Cons.IH [OF r] have len: "length cs'' = length cs" and
    ih: "\<forall>i < length cs. cluster_id (cs'' ! i) = cluster_id (cs ! i) \<and>
          cluster_size (cs'' ! i) = cluster_size (cs ! i) + length (masked labels (Suc pos + i) rs)"
    by simp_all
  from update_cluster_by_position [OF c'] have
    h: "cluster_id c' = cluster_id c \<and> cluster_size c' = cluster_size c + length (masked labels pos rs)"
    by simp
  show ?case
  proof (intro conjI allI impI)
    show "length cs' = length (c # cs)" using e len by simp
  next
    fix i assume "i < length (c # cs)"
    then show "cluster_id (cs' ! i) = cluster_id ((c # cs) ! i)"
      using e h ih by (cases i) simp_all
  next
    fix i assume "i < length (c # cs)"
    then show "cluster_size (cs' ! i) = cluster_size ((c # cs) ! i) + length (masked labels (pos + i) rs)"
      using e h ih by (cases i) simp_all
  qed
qed

lemma update_cluster_stats_by_position:
  assumes "update_cluster_stats cs rs labels = Inr cs'" and "i < length cs"
  shows "cluster_id (cs' ! i) = cluster_id (cs ! i) \<and>
         cluster_size (cs' ! i) = cluster_size (cs ! i) + length (masked labels i rs)"
  using update_from_by_position [of rs labels 0 cs cs'] assms
  by (simp add: update_cluster_stats_def)

text \<open>
  Claim C7: when the identity has neither a cached profile nor a profile file,
  \<^verbatim>\<open>update_profile\<close> ends with the profile-not-found error and leaves the store as it
  was. The result is the same for every numeric library and every batch, so neither
  feature extraction nor prediction contributes to it.
\<close>

theorem update_unknown_identity_fails:
  assumes "profiles st uid = None" and "profile_files st uid = None"
  shows "update_profile lib now st uid new_vlt_records = (st, Inl ProfileNotFound)"
  using assms by (simp add: update_profile_def get_profile_def)

text \<open>Claim C7 at the empty store.\<close>

theorem update_unknown_identity_fails_witness:
  "profiles empty_store ''u'' = None \<and> profile_files empty_store ''u'' = None \<and>
   snd (update_profile toy_lib ''t1'' empty_store ''u'' [rec_fluid]) = Inl ProfileNotFound"
proof -
  have a: "profiles empty_store ''u'' = None" by (simp add: empty_store_def)
  have b: "profile_files empty_store ''u'' = None" by (simp add: empty_store_def)
  from update_unknown_identity_fails [OF a b, of toy_lib "''t1''" "[rec_fluid]"] a b
  show ?thesis by simp
qed

text \<open>
  Claim C4: after every successful \<^verbatim>\<open>update_profile\<close> the statistics of the profile are
  those of an empty record list: the garment, colour and style distributions are empty
  and the diversity score is 0.
\<close>

theorem update_statistics_from_empty_list:
  assumes "snd (update_profile lib now st uid rs) = Inr prof'"
  shows "compute_statistics [] (clusters prof') = Inr (statistics prof') \<and>
         garment_distribution (statistics prof') = [] \<and>
         color_distribution (statistics prof') = [] \<and>
         style_distribution (statistics prof') = [] \<and>
         diversity_score (statistics prof') = 0"
proof -
  from assms obtain prof cs sts where
    s: "compute_statistics (get_all_vlt_records uid) cs = Inr sts" and
    p: "prof' = prof\<lparr>clusters := cs, n_records := n_records prof + length rs, updated_at := now,
                    statistics := sts\<rparr>"
    by (rule update_profile_Inr)
  from s have "sts = \<lparr>garment_distribution = [], color_distribution = [], style_distribution = [],
          diversity_score = 0, largest_cluster_percentage = max_percentage cs\<rparr>"
    by (simp add: compute_statistics_Nil get_all_vlt_records_def)
  with p show ?thesis
    by (simp add: compute_statistics_Nil)
qed

text \<open>
  Claim C4 at an update of the profile of user \<open>u\<close> by three records with the
  vocabulary of the first batch; the garment distribution was not empty before.
\<close>

theorem update_statistics_from_empty_list_witness:
  "\<exists>prof'. snd (update_profile toy_lib ''t1'' toy_store ''u'' [rec_fluid, rec_fluid, rec_tailored]) = Inr prof' \<and>
     garment_distribution (statistics prof') = [] \<and>
     color_distribution (statistics prof') = [] \<and>
     style_distribution (statistics prof') = [] \<and>
     diversity_score (statistics prof') = 0 \<and>
     garment_distribution (statistics toy_profile) = [(''jacket'', 2), (''dress'', 1)]"
proof -
  obtain prof' where
    p: "snd (update_profile toy_lib ''t1'' toy_store ''u'' [rec_fluid, rec_fluid, rec_tailored]) = Inr prof'"
    using toy_update_result by blast
  have "garment_distribution (statistics toy_profile) = [(''jacket'', 2), (''dress'', 1)]"
    by (simp add: toy_profile_def)
  with update_statistics_from_empty_list [OF p] p show ?thesis by blast
qed

text \<open>
  Claim C8: a successful \<^verbatim>\<open>update_profile\<close> on an identity with an existing profile
  stores a profile whose record count is the former count plus the size of the new
  batch, strictly more for a batch that is not empty; the profile is stored in the
  cache and in the profile file.
\<close>

theorem update_increases_record_count:
  assumes "snd (get_profile st uid) = Some prof"
      and "snd (update_profile lib now st uid rs) = Inr prof'"
  shows "n_records prof' = n_records prof + length rs \<and>
         (rs \<noteq> [] \<longrightarrow> n_records prof < n_records prof') \<and>
         profiles (fst (update_profile lib now st uid rs)) uid = Some prof' \<and>
         profile_files (fst (update_profile lib now st uid rs)) uid = Some prof'"
proof -
  from assms(2) obtain st1 prof0 gmm scaler pca cs sts where
    g: "get_profile st uid = (st1, Some prof0)" and
    p: "prof' = prof0\<lparr>clusters := cs, n_records := n_records prof0 + length rs, updated_at := now,
                    statistics := sts\<rparr>" and
    st: "fst (update_profile lib now st uid rs) =
       (save_profile st1 uid prof' gmm scaler pca)
         \<lparr>profiles := (profiles (save_profile st1 uid prof' gmm scaler pca))(uid \<mapsto> prof')\<rparr>"
    by (rule update_profile_Inr)
  from g assms(1) have eq: "prof0 = prof" by simp
  from p eq have n: "n_records prof' = n_records prof + length rs" by simp
  from st have "profiles (fst (update_profile lib now st uid rs)) uid = Some prof'"
    "profile_files (fst (update_profile lib now st uid rs)) uid = Some prof'"
    by (simp_all add: save_profile_def)
  with n show ?thesis by auto
qed

text \<open>Claim C8 at an update of the profile of user \<open>u\<close> by three records: 3 becomes 6.\<close>

theorem update_increases_record_count_witness:
  "\<exists>prof'. snd (get_profile toy_store ''u'') = Some toy_profile \<and>
     snd (update_profile toy_lib ''t1'' toy_store ''u'' [rec_fluid, rec_fluid, rec_tailored]) = Inr prof' \<and>
     n_records toy_profile = 3 \<and> n_records prof' = 6 \<and>
     profile_files (fst (update_profile toy_lib ''t1'' toy_store ''u'' [rec_fluid, rec_fluid, rec_tailored])) ''u''
       = Some prof'"
proof -
  obtain prof' where
    p: "snd (update_profile toy_lib ''t1'' toy_store ''u'' [rec_fluid, rec_fluid, rec_tailored]) = Inr prof'"
    using toy_update_result by blast
  have n: "n_records toy_profile = 3"
    by (simp add: toy_profile_def)
  from update_increases_record_count [OF toy_get_profile p] n have "n_records prof' = 6"
    by simp
  with update_increases_record_count [OF toy_get_profile p] toy_get_profile p n show ?thesis by blast
qed

text \<open>
  Claim C3 fails on the code. \<^verbatim>\<open>_update_cluster_stats\<close> compares the new labels with the
  position of a cluster in the stored list, and \<^verbatim>\<open>_analyze_clusters\<close> has sorted that
  list by size. For user \<open>u\<close> the list holds cluster 1 (size 2, tailored) before cluster
  0 (size 1, fluid). The new batch, two fluid records and a tailored one, has the
  vocabulary of the first batch, so it has the two columns the stored scaler was
  fitted on, and the stored mixture model assigns the fluid records to component 0
  and the tailored record to component 1. The update adds the two fluid records to
  the cluster at position 0, which is cluster 1 (size 2 becomes 4, dominant silhouette
  fluid), and the tailored record to the cluster at position 1, which is cluster 0
  (size 1 becomes 2, dominant silhouette tailored). By the claim both sizes become 3.
\<close>

theorem update_counts_by_list_position:
  "model_files toy_store ''u'' = Some ((2, 3), 2, (2, 2)) \<and>
   extract_features [rec_fluid, rec_fluid, rec_tailored] =
     Inr ([[1, 0], [1, 0], [0, 1]], [''silhouette_fluid'', ''silhouette_tailored'']) \<and>
   gmm_predict toy_lib (2, 3) [[1, 0], [1, 0], [0, 1]] = Some [0, 0, 1] \<and>
   map (\<lambda>c. (cluster_id c, cluster_size c)) (clusters toy_profile) = [(1, 2), (0, 1)] \<and>
   (case snd (update_profile toy_lib ''t1'' toy_store ''u'' [rec_fluid, rec_fluid, rec_tailored]) of
      Inl e \<Rightarrow> False
    | Inr prof' \<Rightarrow>
        map (\<lambda>c. (cluster_id c, cluster_size c, dominant_attributes c)) (clusters prof') =
          [(1, 4, [(''silhouette'', (''fluid'', 2))]), (0, 2, [(''silhouette'', (''tailored'', 1))])])"
  by code_simp

section \<open>Creating a profile from an empty batch\<close>










section \<open>Clamping the number of clusters\<close>

















section \<open>Creation does not depend on the store or the clock\<close>

text \<open>
  \<^verbatim>\<open>create_profile\<close> reads the store and the clock for nothing but the two timestamps:
  two successful calls with the same library, records and requested cluster count
  return profiles that differ in their timestamps only. Whether the library itself
  repeats its results (the mixture model and the forest are given the seed 42, the
  projection is given none) is a property of the library, not of this code.
\<close>

lemma create_independent_of_store_and_clock:
  assumes a: "snd (create_profile lib t1 t2 st uid rs k) = Inr prof1"
      and b: "snd (create_profile lib t1' t2' st' uid rs k) = Inr prof2"
  shows "prof2 = prof1\<lparr>created_at := t1', updated_at := t2'\<rparr>"
proof -
  from a obtain n F names gmm scaler pca labels P cs sts imp where
    f1: "fit_stage lib rs k = Inr (n, F, names, (gmm, scaler, pca), labels, P)" and
    a1: "analyze_clusters rs labels P F = Inr cs" and
    s1: "compute_statistics rs cs = Inr sts" and
    i1: "compute_feature_importance lib F names labels = Inr imp" and
    p1: "prof1 = \<lparr>user_id = uid, n_records = length rs, n_clusters = n, clusters = cs,
              statistics = sts, feature_importance = imp,
              created_at = t1, updated_at = t2\<rparr>"
    by (rule create_profile_Inr)
  from b obtain n' F' names' gmm' scaler' pca' labels' P' cs' sts' imp' where
    f2: "fit_stage lib rs k = Inr (n', F', names', (gmm', scaler', pca'), labels', P')" and
    a2: "analyze_clusters rs labels' P' F' = Inr cs'" and
    s2: "compute_statistics rs cs' = Inr sts'" and
    i2: "compute_feature_importance lib F' names' labels' = Inr imp'" and
    p2: "prof2 = \<lparr>user_id = uid, n_records = length rs, n_clusters = n', clusters = cs',
              statistics = sts', feature_importance = imp',
              created_at = t1', updated_at = t2'\<rparr>"
    by (rule create_profile_Inr)
  from f1 f2 have same: "n' = n" "F' = F" "names' = names" "labels' = labels" "P' = P"
    by simp_all
  with a1 a2 i1 i2 have cs: "cs' = cs" and imp: "imp' = imp" by simp_all
  with s1 s2 have "sts' = sts" by simp
  with p1 p2 same cs imp show ?thesis by simp
qed

end
